theory Spec2Isabelle
  imports Main "HOL-Library.Word" "HOL-Library.Multiset" "HOL-Library.Sublist"
begin

unbundle bit_operations_syntax

section \<open>Water observation summaries (odc/stats/plugins/wofs.py)\<close>

subsection \<open>Arrays\<close>

text \<open>
  A raster is indexed by its \<open>(y, x)\<close> position. Every operation of the plugins is
  elementwise in \<open>y\<close> and \<open>x\<close>, so an array with dimensions \<open>(y, x)\<close> is a function
  of the pixel and an array with dimensions \<open>(time, y, x)\<close> is the list of its time slices.
\<close>

type_synonym pixel = "nat \<times> nat"
type_synonym 'a image = "pixel \<Rightarrow> 'a"

type_synonym uint8 = "8 word"
type_synonym int16 = "16 word"
type_synonym int32 = "32 word"

text \<open>
  A \<open>float32\<close> value, as far as the plugins build one: \<open>NaN\<close>, or the quotient of two
  integers converted to floating point, \<open>Quot a b\<close> with \<open>b \<noteq> 0\<close>. The rounding of the
  division is not modelled.
\<close>

datatype float32 = NaN | Quot int int

text \<open>An integer \<open>DataArray\<close>: its values and the \<open>nodata\<close> entry of its \<open>attrs\<close>.\<close>

record int16_array =
  data :: "int16 image"
  nodata :: "int16 option"

datatype data_array = Int16 int16_array | Float32 "float32 image"

text \<open>\<open>xr.Dataset(dict(...))\<close>: the variables by name, in insertion order.\<close>

type_synonym dataset = "(string \<times> data_array) list"

subsection \<open>Functions of \<open>odc.algo\<close> used by the plugins\<close>

text \<open>
  \<open>safe_div(x1, x2, dtype="float32")\<close> evaluates
  \<open>where(x2 == 0, nan, (1.0 * x1) / x2)\<close> elementwise.
\<close>

definition safe_div :: "int16 image \<Rightarrow> int16 image \<Rightarrow> float32 image" where
  "safe_div x1 x2 = (\<lambda>p. if x2 p = 0 then NaN else Quot (sint (x1 p)) (sint (x2 p)))"

text \<open>
  \<open>keep_good_only(x, where)\<close> with no \<open>nodata\<close> argument: the fill value is
  \<open>getattr(x, "nodata", 0)\<close>, the result is \<open>np.where(where, x, nodata)\<close> with the
  attributes of \<open>x\<close>.
\<close>

definition keep_good_only :: "int16_array \<Rightarrow> bool image \<Rightarrow> int16_array" where
  "keep_good_only x wh =
     (let nd = (case nodata x of None \<Rightarrow> 0 | Some v \<Rightarrow> v)
      in x\<lparr>data := (\<lambda>p. if wh p then data x p else nd)\<rparr>)"

subsection \<open>StatsWofs\<close>

text \<open>The boolean layers of one observation after \<open>native_transform\<close>.\<close>

record wo_layer =
  bad :: "bool image"
  some :: "bool image"
  dry :: "bool image"
  wet :: "bool image"

definition BAD_BITS_MASK :: uint8 where
  "BAD_BITS_MASK = 104"

definition measurements :: "string list" where
  "measurements = [''count_wet'', ''count_clear'', ''frequency'']"

text \<open>
  \<open>native_transform\<close> on the \<open>water\<close> bitmask of one observation. \<open>binary_dilation\<close>
  (of \<open>odc.algo\<close>) is a parameter. The expression \<open>((water<<30)>>30)==0\<close> is evaluated by
  numexpr, which promotes the \<open>uint8\<close> input to a 32-bit signed integer.
\<close>

definition native_transform ::
  "(bool image \<Rightarrow> int \<Rightarrow> bool image) \<Rightarrow> int \<Rightarrow> uint8 image \<Rightarrow> wo_layer" where
  "native_transform binary_dilation dilation water =
     \<lparr>bad = (if dilation \<noteq> 0
             then (\<lambda>p. binary_dilation (\<lambda>q. 0 < (water q AND BAD_BITS_MASK)) dilation p
                        \<or> 0 < (water p AND 126))
             else (\<lambda>p. 0 < (water p AND 126))),
      some = (\<lambda>p. signed_drop_bit 30 (push_bit 30 (ucast (water p) :: int32)) = 0),
      dry = (\<lambda>p. water p = 0),
      wet = (\<lambda>p. water p = 128)\<rparr>"

text \<open>
  \<open>_or_fuser\<close> of \<open>odc.algo._masking\<close>: every variable of the group is merged along the
  time axis with \<open>|\<close>, starting from the first slice; an empty group fails its assertion.
\<close>

definition layer_or :: "wo_layer \<Rightarrow> wo_layer \<Rightarrow> wo_layer" where
  "layer_or a b =
     \<lparr>bad = (\<lambda>p. bad a p \<or> bad b p),
      some = (\<lambda>p. some a p \<or> some b p),
      dry = (\<lambda>p. dry a p \<or> dry b p),
      wet = (\<lambda>p. wet a p \<or> wet b p)\<rparr>"

fun or_fuser :: "wo_layer list \<Rightarrow> wo_layer option" where
  "or_fuser [] = None"
| "or_fuser (x # xs) = Some (foldl layer_or x xs)"

definition fuser :: "wo_layer list \<Rightarrow> wo_layer option" where
  "fuser xx =
     (case or_fuser xx of
        None \<Rightarrow> None
      | Some m \<Rightarrow>
          Some \<lparr>bad = bad m,
                some = some m,
                dry = (\<lambda>p. dry m p \<and> \<not> wet m p \<and> \<not> bad m p),
                wet = (\<lambda>p. wet m p \<and> \<not> dry m p \<and> \<not> bad m p)\<rparr>)"

text \<open>\<open>.sum(axis=0, dtype="int16")\<close> of a boolean stack: the sum wraps at 16 bits.\<close>

definition sum_bool :: "bool image list \<Rightarrow> int16 image" where
  "sum_bool xs = (\<lambda>p. sum_list (map (\<lambda>x. if x p then 1 else 0) xs))"

definition count_some :: "wo_layer list \<Rightarrow> int16 image" where
  "count_some xx = sum_bool (map some xx)"

definition count_wet :: "wo_layer list \<Rightarrow> int16 image" where
  "count_wet xx = sum_bool (map wet xx)"

definition count_dry :: "wo_layer list \<Rightarrow> int16 image" where
  "count_dry xx = sum_bool (map dry xx)"

definition count_clear :: "wo_layer list \<Rightarrow> int16 image" where
  "count_clear xx = (\<lambda>p. count_wet xx p + count_dry xx p)"

definition reduce :: "wo_layer list \<Rightarrow> dataset" where
  "reduce xx =
     (let nd = - 999;
          frequency = safe_div (count_wet xx) (count_clear xx);
          cw = \<lparr>data = count_wet xx, nodata = Some nd\<rparr>;
          cc = \<lparr>data = count_clear xx, nodata = Some nd\<rparr>;
          is_ok = (\<lambda>p. 0 <s count_some xx p)
      in [(''count_wet'', Int16 (keep_good_only cw is_ok)),
          (''count_clear'', Int16 (keep_good_only cc is_ok)),
          (''frequency'', Float32 frequency)])"

subsection \<open>StatsWofsFullHistory\<close>

text \<open>
  The input of \<open>StatsWofsFullHistory.reduce\<close>: the \<open>count_wet\<close> and \<open>count_clear\<close>
  bands of the loaded summaries, one slice per summary, and the \<open>nodata\<close> attribute of
  \<open>count_clear\<close>. The bands are \<open>int16\<close>, as the summaries are stored.
\<close>

record wo_summary =
  wet_count :: "int16 image"
  clear_count :: "int16 image"

record summary_stack =
  slices :: "wo_summary list"
  clear_nodata :: "int16 option"

datatype error = AttributeError

text \<open>\<open>where(v == nodata, 0, v)\<close> summed along the time axis in \<open>int16\<close>.\<close>

definition sum_valid :: "int16 \<Rightarrow> int16 image list \<Rightarrow> int16 image" where
  "sum_valid nd xs = (\<lambda>p. sum_list (map (\<lambda>x. if x p = nd then 0 else x p) xs))"

definition missing :: "int16 \<Rightarrow> wo_summary list \<Rightarrow> bool image" where
  "missing nd xs = (\<lambda>p. list_all (\<lambda>s. clear_count s p = nd) xs)"

definition reduce_fh :: "summary_stack \<Rightarrow> error + dataset" where
  "reduce_fh xx =
     (case clear_nodata xx of
        None \<Rightarrow> Inl AttributeError
      | Some nd \<Rightarrow>
          (let miss = missing nd (slices xx);
               cc = sum_valid nd (map clear_count (slices xx));
               cw = sum_valid nd (map wet_count (slices xx));
               frequency = (\<lambda>p. if cc p = 0 then NaN else Quot (sint (cw p)) (sint (cc p)));
               count_clear = (\<lambda>p. if miss p then nd else cc p);
               count_wet = (\<lambda>p. if miss p then nd else cw p)
           in Inr [(''count_clear'', Int16 \<lparr>data = count_clear, nodata = Some nd\<rparr>),
                   (''count_wet'', Int16 \<lparr>data = count_wet, nodata = Some nd\<rparr>),
                   (''frequency'', Float32 frequency)]))"

subsection \<open>Reading a result\<close>

text \<open>The value of variable \<open>name\<close> of a dataset at one pixel, and its \<open>nodata\<close> attribute.\<close>

datatype scalar = I int16 | F float32

definition at :: "dataset \<Rightarrow> string \<Rightarrow> pixel \<Rightarrow> scalar option" where
  "at ds name p =
     (case map_of ds name of
        None \<Rightarrow> None
      | Some (Int16 a) \<Rightarrow> Some (I (data a p))
      | Some (Float32 f) \<Rightarrow> Some (F (f p)))"

definition nodata_of :: "dataset \<Rightarrow> string \<Rightarrow> int16 option" where
  "nodata_of ds name =
     (case map_of ds name of
        Some (Int16 a) \<Rightarrow> nodata a
      | _ \<Rightarrow> None)"

text \<open>An array holding the same value at every pixel.\<close>

definition uniform :: "'a \<Rightarrow> 'a image" where
  "uniform v = (\<lambda>p. v)"

text \<open>
  Fusing with a grouping, in the words of the specification: every subgroup is fused
  first, then the fused results are fused.
\<close>

definition fuser_grouped :: "wo_layer list list \<Rightarrow> wo_layer option" where
  "fuser_grouped groups =
     (case those (map fuser groups) of
        None \<Rightarrow> None
      | Some fused \<Rightarrow> fuser fused)"

section \<open>Command line: run-pq (odc/stats/_cli_run_pq.py)\<close>

text \<open>
  What a command does to the outside is recorded as a list of events, in the order the
  command performs them; how it ends is an \<open>outcome\<close>. \<open>sys.exit(n)\<close> ends the
  process with exit code \<open>n\<close>; an exception nobody catches ends it with a traceback and
  exit code 1; returning from the command ends it with exit code 0.
\<close>

datatype channel = Stdout | Stderr

datatype outcome = Returned | Exit nat | Raised string

fun exit_code :: "outcome \<Rightarrow> nat" where
  "exit_code Returned = 0"
| "exit_code (Exit n) = n"
| "exit_code (Raised e) = 1"

type_synonym tile = "string \<times> int \<times> int"

record source_ds =
  ds_id :: string
  center_date :: string

record task =
  short_time :: string
  tile_index :: "int \<times> int"
  datasets :: "source_ds list"

record task_result =
  result_task :: task
  result_uri :: string
  skipped :: bool

text \<open>
  The lines the command prints. A line built by a format string is kept as its parts.
\<close>

datatype line =
    Text string
  | Reader_repr
  | Found_tasks nat
  | Will_process nat
  | Creds_tail
  | Client_repr
  | Task_location task
  | Dry_run_line string "int \<times> int" nat nat string string

text \<open>The keyword arguments of \<open>start_local_dask\<close>, lines 126 to 131.\<close>

record dask_args =
  threads_per_worker :: int
  processes :: bool
  dask_memory_limit :: "string option"
  mem_safety_margin :: "string option"

datatype run_event =
    Print channel line
  | Sink_created bool
  | Verify_credentials
  | Dask_started dask_args
  | S3_access_configured
  | Exists_checked task
  | Computed task
  | Written task string

text \<open>
  The collaborators of \<open>run_pq\<close>: the task reader of the cache file
  (\<open>all_tiles\<close>, \<open>stream\<close>), the selector parser \<open>parse_all_tasks\<close>
  (\<open>Inl msg\<close> is \<open>ValueError(msg)\<close>), the product's location, and the output sink
  (\<open>uri\<close>, \<open>exists\<close> with its three answers, the credential check and whether
  credentials were loaded).
\<close>

record run_env =
  cpu_count :: nat
  product_location :: string
  all_tiles :: "tile list"
  parse_all_tasks :: "string list \<Rightarrow> tile list \<Rightarrow> string + tile list"
  stream :: "tile \<Rightarrow> task"
  uri :: "task \<Rightarrow> string"
  exists :: "task \<Rightarrow> bool option"
  verify_s3_credentials :: bool
  creds_loaded :: bool

record run_args =
  cache_file :: string
  tasks :: "string list"
  dryrun :: bool
  verbose :: bool
  threads :: int
  memory_limit :: string
  overwrite :: bool
  public :: bool
  location :: "string option"

text \<open>\<open>dry_run_proc\<close>, lines 73 to 96; \<open>overwrite\<close> is the option of the command.\<close>

definition dry_run_proc :: "run_env \<Rightarrow> bool \<Rightarrow> task \<Rightarrow> bool \<Rightarrow> run_event list \<times> task_result" where
  "dry_run_proc env overwrite_opt t check_s3 =
     (let u = uri env t;
          ex = (if check_s3 then exists env t else None);
          nds = length (datasets t);
          ndays = length (remdups (map center_date (datasets t)));
          flag = (if overwrite_opt
                  then (case ex of None \<Rightarrow> [] | Some True \<Rightarrow> '' (recompute)'' | Some False \<Rightarrow> '' (new)'')
                  else (case ex of None \<Rightarrow> [] | Some True \<Rightarrow> '' (skip)'' | Some False \<Rightarrow> '' (new)''));
          skip = (if overwrite_opt then False else ex = Some True)
      in ((if check_s3 then [Exists_checked t] else [])
            @ [Print Stdout (Dry_run_line (short_time t) (tile_index t) ndays nds u flag)],
          \<lparr>result_task = t, result_uri = u, skipped = skip\<rparr>))"

text \<open>
  Modelled from the spec: \<open>process_tasks\<close> of \<open>odc.stats.proc\<close> is not among the
  sources. Section 4.4: if \<open>exists\<close> returns true and overwrite was not requested, the
  task is marked \<open>skipped=True\<close> and no write occurs; otherwise the task is computed and
  written at \<open>uri(task)\<close>, and the result has \<open>skipped=False\<close>.
\<close>

definition process_task :: "run_env \<Rightarrow> bool \<Rightarrow> task \<Rightarrow> run_event list \<times> task_result" where
  "process_task env check_exists t =
     (let u = uri env t
      in if check_exists \<and> exists env t = Some True
         then ([Exists_checked t], \<lparr>result_task = t, result_uri = u, skipped = True\<rparr>)
         else ((if check_exists then [Exists_checked t] else []) @ [Computed t, Written t u],
               \<lparr>result_task = t, result_uri = u, skipped = False\<rparr>))"

text \<open>Lines 98 to 107: which tiles to process.\<close>

definition select_tasks :: "run_env \<Rightarrow> run_args \<Rightarrow> run_event list \<times> (string + tile list)" where
  "select_tasks env args =
     (if length (tasks args) = 0
      then ((if verbose args then [Print Stdout (Found_tasks (length (all_tiles env)))] else []),
            Inr (all_tiles env))
      else (case parse_all_tasks env (tasks args) (all_tiles env) of
              Inl msg \<Rightarrow> ([Print Stderr (Text msg)], Inl msg)
            | Inr ts \<Rightarrow> ([], Inr ts)))"

text \<open>
  Lines 147 to 160: one task of the result loop. \<open>rdr.stream\<close>, \<open>map\<close> and
  \<open>process_tasks\<close> are lazy, so the events of a task come together, task after task.
\<close>

definition run_task :: "run_env \<Rightarrow> run_args \<Rightarrow> task \<Rightarrow> run_event list \<times> task_result" where
  "run_task env args t =
     (if dryrun args
      then dry_run_proc env (overwrite args) t (\<not> overwrite args)
      else (let (evs, r) = process_task env (\<not> overwrite args) t
            in (evs @ (if verbose args then [Print Stdout (Task_location (result_task r))] else []), r)))"

record run_result =
  events :: "run_event list"
  ended :: outcome
  results :: "task_result list"

definition run_pq :: "run_env \<Rightarrow> run_args \<Rightarrow> run_result" where
  "run_pq env args =
     (let ev_rdr = (if verbose args then [Print Stdout Reader_repr] else []);
          (ev_sel, sel) = select_tasks env args
      in case sel of
           Inl msg \<Rightarrow> \<lparr>events = ev_rdr @ ev_sel, ended = Exit 1, results = []\<rparr>
         | Inr tiles \<Rightarrow>
             (let ev_sink = ev_rdr @ ev_sel
                    @ (if verbose args then [Print Stdout (Will_process (length tiles))] else [])
                    @ [Sink_created (public args)]
              in if prefix ''s3:'' (product_location env) \<and> \<not> verify_s3_credentials env
                 then \<lparr>events = ev_sink @ [Verify_credentials,
                                            Print Stdout (Text ''Failed to load S3 credentials'')],
                       ended = Exit 2, results = []\<rparr>
                 else
                   (let ev_creds = (if prefix ''s3:'' (product_location env) then [Verify_credentials] else [])
                          @ (if verbose args \<and> creds_loaded env then [Print Stdout Creds_tail] else []);
                        nthreads = (if threads args \<le> 0 then int (cpu_count env) else threads args);
                        dask = \<lparr>threads_per_worker = nthreads,
                                processes = False,
                                dask_memory_limit =
                                  (if memory_limit args \<noteq> [] then Some (memory_limit args) else None),
                                mem_safety_margin =
                                  (if memory_limit args \<noteq> [] then None else Some ''1G'')\<rparr>;
                        ev_dask = (if \<not> dryrun args
                                   then (if verbose args then [Print Stdout (Text ''Starting local Dask cluster'')] else [])
                                        @ [Dask_started dask, S3_access_configured]
                                        @ (if verbose args then [Print Stdout Client_repr] else [])
                                   else []);
                        done = map (run_task env args) (map (stream env) tiles)
                    in \<lparr>events = ev_sink @ ev_creds @ ev_dask @ concat (map fst done)
                                   @ (if verbose args then [Print Stdout (Text ''Exiting'')] else []),
                        ended = Returned,
                        results = map snd done\<rparr>)))"

section \<open>Command line: save-tasks (odc/stats/_cli_save_tasks.py)\<close>

text \<open>
  What the two predicates read of a dataset. The type \<open>'f\<close> stands for the floating
  point numbers; nothing is assumed of their comparison.
\<close>

record 'f ds_record =
  type_name :: string
  collection_category :: string
  gqa_iterative_mean_xy :: 'f

record date_time_range =
  short :: string

type_synonym tile_range = "(int \<times> int) \<times> (int \<times> int)"

record 'f save_args =
  grid :: "string option"
  year :: "int option"
  temporal_range :: "string option"
  frequency :: "string option"
  output_file :: string
  products :: string
  dataset_filter :: "string option"
  env_name :: "string option"
  complevel :: int
  overwrite_output :: bool
  tiles :: "tile_range option"
  debug :: bool
  gqa :: "'f option"
  usgs_collection_category :: "string option"

text \<open>The arguments of the call \<open>tasks.save(dc, products, ...)\<close>.\<close>

record 'f save_call =
  call_products :: string
  call_dataset_filter :: "(string \<times> string) list"
  call_temporal_range :: "date_time_range option"
  call_tiles :: "tile_range option"
  call_predicate :: "('f ds_record \<Rightarrow> bool) option"
  call_debug :: bool

datatype 'f save_event =
    Say channel string
  | SaveTasks_created string "string option" "string option" bool int
  | Datacube_created "string option"
  | Save_called "'f save_call"

text \<open>
  The collaborators of \<open>save_tasks\<close>: \<open>json.loads\<close> (\<open>None\<close> when it raises),
  \<open>DateTimeRange\<close> (\<open>None\<close> is its \<open>ValueError\<close>), \<open>DateTimeRange.year\<close>, the
  constructor \<open>SaveTasks\<close> (\<open>Some msg\<close> is \<open>ValueError(msg)\<close>) and its method
  \<open>save\<close> (\<open>Inl msg\<close> is \<open>ValueError(msg)\<close>, \<open>Inr ok\<close> its return value).
\<close>

record 'f save_env =
  json_loads :: "string \<Rightarrow> (string \<times> string) list option"
  DateTimeRange :: "string \<Rightarrow> date_time_range option"
  DateTimeRange_year :: "int \<Rightarrow> date_time_range"
  SaveTasks :: "string \<Rightarrow> string option \<Rightarrow> string option \<Rightarrow> bool \<Rightarrow> int \<Rightarrow> string option"
  save :: "'f save_call \<Rightarrow> string + bool"

definition gqa_predicate :: "'f::ord \<Rightarrow> 'f ds_record \<Rightarrow> bool" where
  "gqa_predicate g ds = (gqa_iterative_mean_xy ds \<le> g)"

definition collection_category_predicate :: "string \<Rightarrow> 'f ds_record \<Rightarrow> bool" where
  "collection_category_predicate category ds =
     (if type_name ds \<in> set [''ls5_sr'', ''ls7_sr'', ''ls8_sr'', ''ls9_sr'']
      then collection_category ds = category
      else True)"

text \<open>Lines 155 to 160: the second assignment replaces the first.\<close>

definition select_predicate :: "'f::ord save_args \<Rightarrow> ('f ds_record \<Rightarrow> bool) option" where
  "select_predicate args =
     (let predicate = None;
          predicate = (case gqa args of None \<Rightarrow> predicate | Some g \<Rightarrow> Some (gqa_predicate g));
          predicate = (case usgs_collection_category args of
                         None \<Rightarrow> predicate
                       | Some c \<Rightarrow> Some (collection_category_predicate c))
      in predicate)"

definition frequencies :: "string list" where
  "frequencies = [''annual'', ''annual-fy'', ''semiannual'', ''seasonal'', ''nov-mar'', ''apr-oct'', ''all'']"

definition quoted :: "string \<Rightarrow> string" where
  "quoted s = [CHR 0x27] @ s @ [CHR 0x27]"

text \<open>Lines 129 to 133: the default name of the output file.\<close>

definition default_output :: "string \<Rightarrow> string \<Rightarrow> date_time_range option \<Rightarrow> string" where
  "default_output out prods tr =
     (if out = []
      then (case tr of
              Some r \<Rightarrow> prods @ ''_'' @ short r @ ''.db''
            | None \<Rightarrow> prods @ ''_all.db'')
      else out)"

text \<open>Lines 135 to 180: from the construction of \<open>SaveTasks\<close> to the end.\<close>

definition build_and_save ::
  "'f::ord save_env \<Rightarrow> 'f save_args \<Rightarrow> (string \<times> string) list \<Rightarrow> date_time_range option
     \<Rightarrow> 'f save_event list \<times> outcome" where
  "build_and_save co args flt tr =
     (let out = default_output (output_file args) (products args) tr
      in case SaveTasks co out (grid args) (frequency args) (overwrite_output args) (complevel args) of
           Some msg \<Rightarrow> ([Say Stdout msg], Exit 1)
         | None \<Rightarrow>
             (let call = \<lparr>call_products = products args,
                          call_dataset_filter = flt,
                          call_temporal_range = tr,
                          call_tiles = tiles args,
                          call_predicate = select_predicate args,
                          call_debug = debug args\<rparr>;
                  evs = [SaveTasks_created out (grid args) (frequency args) (overwrite_output args) (complevel args),
                         Datacube_created (env_name args),
                         Save_called call]
              in case save co call of
                   Inl msg \<Rightarrow> (evs @ [Say Stdout msg], Exit 2)
                 | Inr ok \<Rightarrow> if \<not> ok then (evs, Exit 3) else (evs, Returned)))"

definition save_tasks :: "'f::ord save_env \<Rightarrow> 'f save_args \<Rightarrow> 'f save_event list \<times> outcome" where
  "save_tasks co args =
     (case (case dataset_filter args of
              None \<Rightarrow> Some []
            | Some s \<Rightarrow> if s = [] then Some [] else json_loads co s) of
        None \<Rightarrow> ([], Raised ''JSONDecodeError'')
      | Some flt \<Rightarrow>
          if temporal_range args \<noteq> None \<and> year args \<noteq> None
          then ([Say Stderr ''Can only supply one of --year or --temporal_range''], Exit 1)
          else
            (case (case temporal_range args of
                     None \<Rightarrow> Inr None
                   | Some s \<Rightarrow> (case DateTimeRange co s of None \<Rightarrow> Inl s | Some r \<Rightarrow> Inr (Some r))) of
               Inl s \<Rightarrow>
                 ([Say Stdout (''Failed to parse supplied temporal_range: '' @ quoted s)], Exit 1)
             | Inr tr0 \<Rightarrow>
                 (let tr = (case year args of None \<Rightarrow> tr0 | Some y \<Rightarrow> Some (DateTimeRange_year co y))
                  in case frequency args of
                       None \<Rightarrow> build_and_save co args flt tr
                     | Some f \<Rightarrow>
                         if f \<notin> set frequencies
                         then ([Say Stdout (''Frequency must be one of annual|annual-fy|semiannual|seasonal|nov-mar|apr-oct|all and not '' @ quoted f)],
                               Exit 1)
                         else build_and_save co args flt tr)))"

section \<open>Reading results and traces\<close>

text \<open>
  The value and the \<open>nodata\<close> attribute of a variable of what
  \<open>StatsWofsFullHistory.reduce\<close> returns; nothing when it raised.
\<close>

definition at_fh :: "error + dataset \<Rightarrow> string \<Rightarrow> pixel \<Rightarrow> scalar option" where
  "at_fh r name p = (case r of Inl e \<Rightarrow> None | Inr ds \<Rightarrow> at ds name p)"

definition nodata_fh :: "error + dataset \<Rightarrow> string \<Rightarrow> int16 option" where
  "nodata_fh r name = (case r of Inl e \<Rightarrow> None | Inr ds \<Rightarrow> nodata_of ds name)"

text \<open>
  The events of \<open>run_pq\<close> that belong to the execution of tasks: the existence check,
  the computation and the write of a task, the start of the Dask cluster, and the lines
  printed per task.
\<close>

definition task_event :: "run_event \<Rightarrow> bool" where
  "task_event e =
     (case e of
        Exists_checked t \<Rightarrow> True
      | Computed t \<Rightarrow> True
      | Written t u \<Rightarrow> True
      | Dask_started d \<Rightarrow> True
      | S3_access_configured \<Rightarrow> True
      | Print c (Dry_run_line a b c' d e' f) \<Rightarrow> True
      | Print c (Task_location t) \<Rightarrow> True
      | _ \<Rightarrow> False)"

text \<open>
  The events of \<open>save_tasks\<close> that touch the task catalog or the datacube: everything
  but printing.
\<close>

definition catalog_event :: "'f save_event \<Rightarrow> bool" where
  "catalog_event e =
     (case e of
        Say c s \<Rightarrow> False
      | SaveTasks_created out g f ow z \<Rightarrow> True
      | Datacube_created n \<Rightarrow> True
      | Save_called c \<Rightarrow> True)"

section \<open>Example inputs\<close>

text \<open>
  Layers as \<open>native_transform\<close> gives them for clear water (\<open>water = 128\<close>) and clear
  dry land (\<open>water = 0\<close>), a layer that is wet where nothing was observed, and the layers
  of an observation without data (\<open>water = 1\<close>) and of a cloud (\<open>water = 64\<close>) when no
  dilation is requested.
\<close>

definition wet_obs :: wo_layer where
  "wet_obs = \<lparr>bad = uniform False, some = uniform True, dry = uniform False, wet = uniform True\<rparr>"

definition dry_obs :: wo_layer where
  "dry_obs = \<lparr>bad = uniform False, some = uniform True, dry = uniform True, wet = uniform False\<rparr>"

definition stray_wet :: wo_layer where
  "stray_wet = \<lparr>bad = uniform False, some = uniform False, dry = uniform False, wet = uniform True\<rparr>"

definition no_dilation :: "bool image \<Rightarrow> int \<Rightarrow> bool image" where
  "no_dilation img radius = img"

definition nodata_obs :: wo_layer where
  "nodata_obs = native_transform no_dilation 0 (uniform 1)"

definition cloud_obs :: wo_layer where
  "cloud_obs = native_transform no_dilation 0 (uniform 64)"

text \<open>
  Summary stacks: one never observed summary with the sentinel \<open>-999\<close>, the same with
  the sentinel \<open>-1\<close>, and two observed summaries.
\<close>

definition unobserved_stack :: summary_stack where
  "unobserved_stack =
     \<lparr>slices = [\<lparr>wet_count = uniform (- 999), clear_count = uniform (- 999)\<rparr>],
      clear_nodata = Some (- 999)\<rparr>"

definition other_nodata_stack :: summary_stack where
  "other_nodata_stack =
     \<lparr>slices = [\<lparr>wet_count = uniform (- 1), clear_count = uniform (- 1)\<rparr>],
      clear_nodata = Some (- 1)\<rparr>"

definition two_years :: summary_stack where
  "two_years =
     \<lparr>slices = [\<lparr>wet_count = uniform 2, clear_count = uniform 5\<rparr>,
                \<lparr>wet_count = uniform 1, clear_count = uniform 3\<rparr>],
      clear_nodata = Some (- 999)\<rparr>"

text \<open>
  A task file of two tiles on an S3 location. The output of the first tile exists, the
  output of the second does not. The only selector the parser accepts is \<open>0\<close>.
\<close>

definition demo_stream :: "tile \<Rightarrow> task" where
  "demo_stream k = \<lparr>short_time = fst k, tile_index = snd k, datasets = []\<rparr>"

definition demo_exists :: "task \<Rightarrow> bool option" where
  "demo_exists t = (if tile_index t = (3, - 4) then Some True else Some False)"

definition demo_parse :: "string list \<Rightarrow> tile list \<Rightarrow> string + tile list" where
  "demo_parse sel tls = (if sel = [''0''] then Inr (take 1 tls) else Inl ''Bad task selector'')"

definition demo_env :: run_env where
  "demo_env =
     \<lparr>cpu_count = 4,
      product_location = ''s3://bucket/pq'',
      all_tiles = [(''2019--P1Y'', 3, - 4), (''2019--P1Y'', 3, - 3)],
      parse_all_tasks = demo_parse,
      stream = demo_stream,
      uri = short_time,
      exists = demo_exists,
      verify_s3_credentials = True,
      creds_loaded = False\<rparr>"

definition demo_args :: run_args where
  "demo_args =
     \<lparr>cache_file = ''tasks.db'', tasks = [], dryrun = True, verbose = False, threads = 0,
      memory_limit = [], overwrite = False, public = False, location = None\<rparr>"

text \<open>
  A \<open>save-tasks\<close> invocation with both \<open>--gqa\<close> and \<open>--usgs-collection-category\<close>,
  collaborators that succeed, and a dataset that passes the gqa test and fails the
  collection category test. Integers stand for the floating point numbers.
\<close>

definition demo_range :: "string \<Rightarrow> date_time_range option" where
  "demo_range s = (if s = ''2020--P1Y'' then Some \<lparr>short = s\<rparr> else None)"

definition demo_year :: "int \<Rightarrow> date_time_range" where
  "demo_year y = \<lparr>short = ''year''\<rparr>"

definition demo_json :: "string \<Rightarrow> (string \<times> string) list option" where
  "demo_json s = (if s = ''{}'' then Some [] else None)"

definition demo_SaveTasks :: "string \<Rightarrow> string option \<Rightarrow> string option \<Rightarrow> bool \<Rightarrow> int \<Rightarrow> string option" where
  "demo_SaveTasks out g f ow z = None"

definition demo_save :: "int save_call \<Rightarrow> string + bool" where
  "demo_save call = Inr True"

definition demo_co :: "int save_env" where
  "demo_co =
     \<lparr>json_loads = demo_json, DateTimeRange = demo_range, DateTimeRange_year = demo_year,
      SaveTasks = demo_SaveTasks, save = demo_save\<rparr>"

definition demo_save_args :: "int save_args" where
  "demo_save_args =
     \<lparr>grid = Some ''au-30'', year = None, temporal_range = None, frequency = None,
      output_file = [], products = ''ls8_sr'', dataset_filter = None, env_name = None,
      complevel = 6, overwrite_output = False, tiles = None, debug = False,
      gqa = Some 1, usgs_collection_category = Some ''T1''\<rparr>"

definition demo_ds :: "int ds_record" where
  "demo_ds = \<lparr>type_name = ''ls8_sr'', collection_category = ''T2'', gqa_iterative_mean_xy = 0\<rparr>"

section \<open>Properties of the fuser\<close>

lemma foldl_layer_or:
  "bad (foldl layer_or x xs) p = (bad x p \<or> (\<exists>l\<in>set xs. bad l p))"
  "some (foldl layer_or x xs) p = (some x p \<or> (\<exists>l\<in>set xs. some l p))"
  "dry (foldl layer_or x xs) p = (dry x p \<or> (\<exists>l\<in>set xs. dry l p))"
  "wet (foldl layer_or x xs) p = (wet x p \<or> (\<exists>l\<in>set xs. wet l p))"
  by (induction xs arbitrary: x) (auto simp: layer_or_def)

lemma or_fuser_eq:
  "or_fuser xx =
     (if xx = [] then None
      else Some \<lparr>bad = (\<lambda>p. \<exists>l\<in>set xx. bad l p),
                 some = (\<lambda>p. \<exists>l\<in>set xx. some l p),
                 dry = (\<lambda>p. \<exists>l\<in>set xx. dry l p),
                 wet = (\<lambda>p. \<exists>l\<in>set xx. wet l p)\<rparr>)"
proof (cases xx)
  case Nil
  then show ?thesis by simp
next
  case (Cons x xs)
  then show ?thesis
    by (simp add: foldl_layer_or fun_eq_iff wo_layer.equality)
qed

lemma fuser_eq:
  "fuser xx =
     (if xx = [] then None
      else Some \<lparr>bad = (\<lambda>p. \<exists>l\<in>set xx. bad l p),
                 some = (\<lambda>p. \<exists>l\<in>set xx. some l p),
                 dry = (\<lambda>p. (\<exists>l\<in>set xx. dry l p) \<and> \<not> (\<exists>l\<in>set xx. wet l p) \<and> \<not> (\<exists>l\<in>set xx. bad l p)),
                 wet = (\<lambda>p. (\<exists>l\<in>set xx. wet l p) \<and> \<not> (\<exists>l\<in>set xx. dry l p) \<and> \<not> (\<exists>l\<in>set xx. bad l p))\<rparr>)"
  by (simp add: fuser_def or_fuser_eq)

lemma fuser_set_cong: "set xx = set yy \<Longrightarrow> fuser xx = fuser yy"
proof -
  assume h: "set xx = set yy"
  then have "xx = [] \<longleftrightarrow> yy = []" by (metis set_empty)
  with h show ?thesis by (simp add: fuser_eq)
qed

lemma fuser_fields:
  assumes "fuser xx = Some y"
  shows "bad y p = (\<exists>l\<in>set xx. bad l p)"
    and "some y p = (\<exists>l\<in>set xx. some l p)"
    and "dry y p = ((\<exists>l\<in>set xx. dry l p) \<and> \<not> (\<exists>l\<in>set xx. wet l p) \<and> \<not> (\<exists>l\<in>set xx. bad l p))"
    and "wet y p = ((\<exists>l\<in>set xx. wet l p) \<and> \<not> (\<exists>l\<in>set xx. dry l p) \<and> \<not> (\<exists>l\<in>set xx. bad l p))"
  using assms by (auto simp: fuser_eq split: if_splits)

lemma fuser_Some_iff: "(\<exists>y. fuser xx = Some y) = (xx \<noteq> [])"
  by (simp add: fuser_eq)

lemma those_map_Some:
  "those (map f xs) = Some ys \<Longrightarrow> ys = map (\<lambda>x. the (f x)) xs \<and> (\<forall>x\<in>set xs. f x \<noteq> None)"
  by (induction xs arbitrary: ys) (auto split: option.splits)

text \<open>
  What a grouped fuse keeps of the observations: \<open>bad\<close> and \<open>some\<close> exactly, and
  every wet (dry) pixel that no observation contradicts.
\<close>

lemma fuser_grouped_fields:
  assumes "fuser_grouped gs = Some g"
  shows "concat gs \<noteq> []"
    and "bad g p = (\<exists>l\<in>set (concat gs). bad l p)"
    and "some g p = (\<exists>l\<in>set (concat gs). some l p)"
    and "(\<exists>l\<in>set (concat gs). wet l p) \<and> \<not> (\<exists>l\<in>set (concat gs). dry l p)
           \<and> \<not> (\<exists>l\<in>set (concat gs). bad l p) \<Longrightarrow> wet g p"
    and "(\<exists>l\<in>set (concat gs). dry l p) \<and> \<not> (\<exists>l\<in>set (concat gs). wet l p)
           \<and> \<not> (\<exists>l\<in>set (concat gs). bad l p) \<Longrightarrow> dry g p"
proof -
  from assms obtain fs where fs: "those (map fuser gs) = Some fs" and g: "fuser fs = Some g"
    by (auto simp: fuser_grouped_def split: option.splits)
  from those_map_Some [OF fs] have m: "fs = map (\<lambda>x. the (fuser x)) gs"
    and ne: "\<forall>x\<in>set gs. fuser x \<noteq> None" by auto
  have each: "fuser x = Some (the (fuser x))" if "x \<in> set gs" for x
    using ne that by auto
  from g have "fs \<noteq> []" using fuser_Some_iff [of fs] by auto
  with m obtain x0 where x0: "x0 \<in> set gs" by (cases gs) auto
  from each [OF x0] have "x0 \<noteq> []" using fuser_Some_iff [of x0] by auto
  with x0 show "concat gs \<noteq> []" by auto
  have B: "(\<exists>f\<in>set fs. bad f p) = (\<exists>l\<in>set (concat gs). bad l p)"
    unfolding m using fuser_fields(1) [OF each] by auto
  have S: "(\<exists>f\<in>set fs. some f p) = (\<exists>l\<in>set (concat gs). some l p)"
    unfolding m using fuser_fields(2) [OF each] by auto
  have D: "(\<exists>f\<in>set fs. dry f p) \<Longrightarrow> (\<exists>l\<in>set (concat gs). dry l p)"
    unfolding m using fuser_fields(3) [OF each] by auto
  have W: "(\<exists>f\<in>set fs. wet f p) \<Longrightarrow> (\<exists>l\<in>set (concat gs). wet l p)"
    unfolding m using fuser_fields(4) [OF each] by auto
  show "bad g p = (\<exists>l\<in>set (concat gs). bad l p)"
    using fuser_fields(1) [OF g] B by simp
  show "some g p = (\<exists>l\<in>set (concat gs). some l p)"
    using fuser_fields(2) [OF g] S by simp
  show "wet g p" if h: "(\<exists>l\<in>set (concat gs). wet l p) \<and> \<not> (\<exists>l\<in>set (concat gs). dry l p)
           \<and> \<not> (\<exists>l\<in>set (concat gs). bad l p)"
  proof -
    from h obtain x l where xl: "x \<in> set gs" "l \<in> set x" "wet l p" by auto
    from h xl have "\<not> (\<exists>l\<in>set x. dry l p)" "\<not> (\<exists>l\<in>set x. bad l p)" by auto
    with xl have "wet (the (fuser x)) p" using fuser_fields(4) [OF each [OF xl(1)], of p] by auto
    with xl(1) have "\<exists>f\<in>set fs. wet f p" unfolding m by auto
    moreover from h D have "\<not> (\<exists>f\<in>set fs. dry f p)" by blast
    moreover from h B have "\<not> (\<exists>f\<in>set fs. bad f p)" by blast
    ultimately show ?thesis using fuser_fields(4) [OF g, of p] by blast
  qed
  show "dry g p" if h: "(\<exists>l\<in>set (concat gs). dry l p) \<and> \<not> (\<exists>l\<in>set (concat gs). wet l p)
           \<and> \<not> (\<exists>l\<in>set (concat gs). bad l p)"
  proof -
    from h obtain x l where xl: "x \<in> set gs" "l \<in> set x" "dry l p" by auto
    from h xl have "\<not> (\<exists>l\<in>set x. wet l p)" "\<not> (\<exists>l\<in>set x. bad l p)" by auto
    with xl have "dry (the (fuser x)) p" using fuser_fields(3) [OF each [OF xl(1)], of p] by auto
    with xl(1) have "\<exists>f\<in>set fs. dry f p" unfolding m by auto
    moreover from h W have "\<not> (\<exists>f\<in>set fs. wet f p)" by blast
    moreover from h B have "\<not> (\<exists>f\<in>set fs. bad f p)" by blast
    ultimately show ?thesis using fuser_fields(3) [OF g, of p] by blast
  qed
qed

text \<open>
  Claim C2, amended. \<open>StatsWofs.fuser\<close> does not depend on the order of the observations
  of a day. Fusing subgroups first and then the fused results gives the same \<open>bad\<close> and
  \<open>some\<close> layers as fusing all observations at once, and every pixel that is wet (dry)
  when fused at once is wet (dry) when fused in groups. The converse does not hold.
\<close>

theorem fuser_order_and_grouping:
  "(mset xx = mset yy \<longrightarrow> fuser xx = fuser yy)
   \<and> (fuser_grouped gs = Some g \<longrightarrow>
        (\<exists>a. fuser (concat gs) = Some a
           \<and> bad g = bad a \<and> some g = some a
           \<and> (\<forall>p. wet a p \<longrightarrow> wet g p) \<and> (\<forall>p. dry a p \<longrightarrow> dry g p)))"
proof (intro conjI impI)
  assume "mset xx = mset yy"
  then have "set xx = set yy" by (rule mset_eq_setD)
  then show "fuser xx = fuser yy" by (rule fuser_set_cong)
next
  assume h: "fuser_grouped gs = Some g"
  note G = fuser_grouped_fields [OF h]
  from G(1) obtain a where a: "fuser (concat gs) = Some a"
    using fuser_Some_iff [of "concat gs"] by auto
  note A = fuser_fields [OF a]
  have "bad g = bad a" using G(2) A(1) by (simp add: fun_eq_iff)
  moreover have "some g = some a" using G(3) A(2) by (simp add: fun_eq_iff)
  moreover have "\<forall>p. wet a p \<longrightarrow> wet g p" using G(4) A(4) by blast
  moreover have "\<forall>p. dry a p \<longrightarrow> dry g p" using G(5) A(3) by blast
  ultimately show "\<exists>a. fuser (concat gs) = Some a
           \<and> bad g = bad a \<and> some g = some a
           \<and> (\<forall>p. wet a p \<longrightarrow> wet g p) \<and> (\<forall>p. dry a p \<longrightarrow> dry g p)"
    using a by simp
qed

text \<open>
  The amended claim C2 at a wet and a dry observation, which fuse to the same layer in
  both orders, and at two groups of one wet (one dry) observation each, where the grouped
  fuse keeps what the fuse at once gives.
\<close>

theorem fuser_order_and_grouping_witness:
  "mset [wet_obs, dry_obs] = mset [dry_obs, wet_obs]
   \<and> fuser [wet_obs, dry_obs] = fuser [dry_obs, wet_obs]
   \<and> fuser_grouped [[wet_obs], [wet_obs]] \<noteq> None
   \<and> wet (the (fuser (concat [[wet_obs], [wet_obs]]))) (0, 0)
   \<and> wet (the (fuser_grouped [[wet_obs], [wet_obs]])) (0, 0)
   \<and> fuser_grouped [[dry_obs], [dry_obs]] \<noteq> None
   \<and> dry (the (fuser (concat [[dry_obs], [dry_obs]]))) (0, 0)
   \<and> dry (the (fuser_grouped [[dry_obs], [dry_obs]])) (0, 0)
   \<and> bad (the (fuser_grouped [[wet_obs], [wet_obs]])) = bad (the (fuser (concat [[wet_obs], [wet_obs]])))
   \<and> some (the (fuser_grouped [[wet_obs], [wet_obs]])) = some (the (fuser (concat [[wet_obs], [wet_obs]])))"
proof -
  have m: "mset [wet_obs, dry_obs] = mset [dry_obs, wet_obs]" by simp
  have gw: "fuser_grouped [[wet_obs], [wet_obs]] = Some (the (fuser_grouped [[wet_obs], [wet_obs]]))"
    and gd: "fuser_grouped [[dry_obs], [dry_obs]] = Some (the (fuser_grouped [[dry_obs], [dry_obs]]))"
    by (simp_all add: fuser_grouped_def fuser_def)
  have n: "fuser_grouped [[wet_obs], [wet_obs]] \<noteq> None" "fuser_grouped [[dry_obs], [dry_obs]] \<noteq> None"
    by (simp_all add: fuser_grouped_def fuser_def)
  have w: "wet (the (fuser (concat [[wet_obs], [wet_obs]]))) (0, 0)"
    and d: "dry (the (fuser (concat [[dry_obs], [dry_obs]]))) (0, 0)"
    by (simp_all add: fuser_def layer_or_def wet_obs_def dry_obs_def uniform_def)
  note t1 = fuser_order_and_grouping [of "[wet_obs, dry_obs]" "[dry_obs, wet_obs]"
      "[[wet_obs], [wet_obs]]" "the (fuser_grouped [[wet_obs], [wet_obs]])"]
  note t2 = fuser_order_and_grouping [of "[wet_obs, dry_obs]" "[dry_obs, wet_obs]"
      "[[dry_obs], [dry_obs]]" "the (fuser_grouped [[dry_obs], [dry_obs]])"]
  from t1 m have "fuser [wet_obs, dry_obs] = fuser [dry_obs, wet_obs]" by blast
  moreover from t1 gw w have "wet (the (fuser_grouped [[wet_obs], [wet_obs]])) (0, 0)"
    by (metis option.sel)
  moreover from t2 gd d have "dry (the (fuser_grouped [[dry_obs], [dry_obs]])) (0, 0)"
    by (metis option.sel)
  moreover from t1 gw
  have "bad (the (fuser_grouped [[wet_obs], [wet_obs]])) = bad (the (fuser (concat [[wet_obs], [wet_obs]])))"
    and "some (the (fuser_grouped [[wet_obs], [wet_obs]])) = some (the (fuser (concat [[wet_obs], [wet_obs]])))"
    by (metis option.sel)+
  ultimately show ?thesis using m n w d by blast
qed

text \<open>
  Claim C2 as stated fails. A group holding a wet and a dry observation of one pixel fuses
  to neither wet nor dry; fused with one more wet observation, the pixel is wet. Fused at
  once, the three observations give a pixel that is not wet.
\<close>

theorem fuser_grouping_counterexample:
  "map_option (\<lambda>l. wet l (0, 0)) (fuser_grouped [[wet_obs, dry_obs], [wet_obs]]) = Some True
   \<and> map_option (\<lambda>l. wet l (0, 0)) (fuser (concat [[wet_obs, dry_obs], [wet_obs]])) = Some False"
  by (simp add: fuser_grouped_def fuser_def layer_or_def wet_obs_def dry_obs_def uniform_def)

text \<open>
  Claim C9. In the output of \<open>StatsWofs.fuser\<close> the flags wet, dry and bad exclude each
  other at every pixel: wet and dry are never both set, and where bad is set neither wet
  nor dry is. With \<open>m\<close> the OR-merge of the group, the output is
  \<open>wet' = wet \<and> \<not> dry \<and> \<not> bad\<close>, \<open>dry' = dry \<and> \<not> wet \<and> \<not> bad\<close> and \<open>bad' = bad\<close>.
\<close>

theorem fuser_exclusive:
  "fuser xx = Some y \<Longrightarrow>
     \<not> (wet y p \<and> dry y p) \<and> (bad y p \<longrightarrow> \<not> wet y p \<and> \<not> dry y p)
     \<and> (\<exists>m. or_fuser xx = Some m
            \<and> wet y p = (wet m p \<and> \<not> dry m p \<and> \<not> bad m p)
            \<and> dry y p = (dry m p \<and> \<not> wet m p \<and> \<not> bad m p)
            \<and> bad y p = bad m p)"
  by (auto simp: fuser_def split: option.splits)

text \<open>Claim C9 at a wet observation and a cloud of the same day.\<close>

theorem fuser_exclusive_witness:
  "fuser [wet_obs, cloud_obs] = Some (the (fuser [wet_obs, cloud_obs]))
   \<and> bad (the (fuser [wet_obs, cloud_obs])) (0, 0)
   \<and> \<not> wet (the (fuser [wet_obs, cloud_obs])) (0, 0)
   \<and> \<not> dry (the (fuser [wet_obs, cloud_obs])) (0, 0)"
proof -
  have h: "fuser [wet_obs, cloud_obs] = Some (the (fuser [wet_obs, cloud_obs]))"
    by (simp add: fuser_def)
  have b: "bad (the (fuser [wet_obs, cloud_obs])) (0, 0)"
    by (simp add: fuser_def layer_or_def cloud_obs_def native_transform_def uniform_def)
  from fuser_exclusive [OF h, of "(0, 0)"] h b show ?thesis by blast
qed

section \<open>Properties of the reductions\<close>

lemma sum_bool_zero: "\<forall>x\<in>set xs. \<not> x p \<Longrightarrow> sum_bool xs p = 0"
  by (induction xs) (auto simp: sum_bool_def)

lemma sum_valid_zero: "\<forall>x\<in>set xs. x p = nd \<Longrightarrow> sum_valid nd xs p = 0"
  by (induction xs) (auto simp: sum_valid_def)

lemma at_reduce:
  "at (reduce xx) ''count_wet'' p = Some (I (if 0 <s count_some xx p then count_wet xx p else - 999))"
  "at (reduce xx) ''count_clear'' p = Some (I (if 0 <s count_some xx p then count_clear xx p else - 999))"
  "at (reduce xx) ''frequency'' p = Some (F (safe_div (count_wet xx) (count_clear xx) p))"
  by (simp_all add: at_def reduce_def keep_good_only_def Let_def)

lemma nodata_of_reduce:
  "nodata_of (reduce xx) ''count_wet'' = Some (- 999)"
  "nodata_of (reduce xx) ''count_clear'' = Some (- 999)"
  by (simp_all add: nodata_of_def reduce_def keep_good_only_def Let_def)

lemma reduce_fh_Inr:
  "clear_nodata yy = Some nd \<Longrightarrow>
   reduce_fh yy = Inr
     [(''count_clear'', Int16 \<lparr>data = (\<lambda>p. if missing nd (slices yy) p then nd
                                             else sum_valid nd (map clear_count (slices yy)) p),
                               nodata = Some nd\<rparr>),
      (''count_wet'', Int16 \<lparr>data = (\<lambda>p. if missing nd (slices yy) p then nd
                                           else sum_valid nd (map wet_count (slices yy)) p),
                             nodata = Some nd\<rparr>),
      (''frequency'', Float32 (\<lambda>p. if sum_valid nd (map clear_count (slices yy)) p = 0 then NaN
                                    else Quot (sint (sum_valid nd (map wet_count (slices yy)) p))
                                              (sint (sum_valid nd (map clear_count (slices yy)) p))))]"
  by (simp add: reduce_fh_def Let_def)

lemma reduce_fh_bands:
  assumes "clear_nodata yy = Some nd"
  shows "\<exists>ds. reduce_fh yy = Inr ds
    \<and> at ds ''count_clear'' p = Some (I (if missing nd (slices yy) p then nd
                                          else sum_valid nd (map clear_count (slices yy)) p))
    \<and> at ds ''count_wet'' p = Some (I (if missing nd (slices yy) p then nd
                                        else sum_valid nd (map wet_count (slices yy)) p))
    \<and> at ds ''frequency'' p =
         Some (F (if sum_valid nd (map clear_count (slices yy)) p = 0 then NaN
                  else Quot (sint (sum_valid nd (map wet_count (slices yy)) p))
                            (sint (sum_valid nd (map clear_count (slices yy)) p))))
    \<and> nodata_of ds ''count_wet'' = Some nd
    \<and> nodata_of ds ''count_clear'' = Some nd"
  by (simp add: reduce_fh_Inr [OF assms] at_def nodata_of_def)

text \<open>
  After \<open>native_transform\<close> a pixel is wet or dry only where there is data, and the
  fuser keeps it so.
\<close>

lemma native_transform_observed:
  "wet (native_transform bd dil w) p \<or> dry (native_transform bd dil w) p
     \<Longrightarrow> some (native_transform bd dil w) p"
  by (auto simp: native_transform_def)

lemma fuser_native_observed:
  assumes "fuser (map (native_transform bd dil) ws) = Some l"
  shows "wet l p \<or> dry l p \<longrightarrow> some l p"
proof -
  note f = fuser_fields [OF assms, of p]
  show ?thesis
    using f native_transform_observed [of bd dil _ p] by auto
qed

text \<open>The 16-bit sums are the true counts as long as they cannot wrap.\<close>

lemma sum_bool_of_nat: "sum_bool xs p = of_nat (length (filter (\<lambda>x. x p) xs))"
  by (induction xs) (auto simp: sum_bool_def)

lemma sint_sum_bool:
  assumes "length xs < 2 ^ 15"
  shows "sint (sum_bool xs p) = int (length (filter (\<lambda>x. x p) xs))"
proof -
  have "length (filter (\<lambda>x. x p) xs) \<le> length xs" by simp
  with assms have "length (filter (\<lambda>x. x p) xs) < 2 ^ 15" by linarith
  then show ?thesis
    unfolding sum_bool_of_nat
    by (simp add: signed_of_nat signed_take_bit_int_eq_self)
qed

lemma sint_count_wet:
  assumes "length xx < 2 ^ 14"
  shows "sint (count_wet xx p) = int (length (filter (\<lambda>l. wet l p) xx))"
proof -
  from assms have "length (map wet xx) < 2 ^ 15" by simp
  from sint_sum_bool [OF this, of p] show ?thesis
    by (simp add: count_wet_def filter_map comp_def)
qed

lemma sint_count_clear:
  assumes "length xx < 2 ^ 14"
  shows "sint (count_clear xx p) =
     int (length (filter (\<lambda>l. wet l p) xx)) + int (length (filter (\<lambda>l. dry l p) xx))"
proof -
  let ?w = "length (filter (\<lambda>l. wet l p) xx)" and ?d = "length (filter (\<lambda>l. dry l p) xx)"
  from assms have "length xx < 16384" by simp
  moreover have "?w \<le> length xx" "?d \<le> length xx" by simp_all
  ultimately have "?w + ?d < 32768" by linarith
  then have b: "?w + ?d < 2 ^ 15" by simp
  have "count_clear xx p = of_nat (?w + ?d)"
    by (simp add: count_clear_def count_wet_def count_dry_def sum_bool_of_nat filter_map comp_def)
  then have "sint (count_clear xx p) = sint (of_nat (?w + ?d) :: int16)" by simp
  also from b have "\<dots> = int (?w + ?d)"
    by (simp only: signed_of_nat) (simp add: signed_take_bit_int_eq_self)
  finally show ?thesis by simp
qed

text \<open>
  Claim C1, amended. At a pixel where no layer has \<open>some\<close> set,
  \<open>StatsWofs.reduce\<close> writes \<open>-999\<close> into \<open>count_wet\<close> and \<open>count_clear\<close>. Its
  \<open>frequency\<close> is not stamped: it is NaN there when no layer is wet or dry without
  \<open>some\<close> at that pixel, and every layer that the fuser builds from
  \<open>native_transform\<close> outputs is of that kind. At a pixel where every \<open>count_clear\<close>
  slice equals the \<open>nodata\<close> value of the input, \<open>StatsWofsFullHistory.reduce\<close> writes
  that \<open>nodata\<close> value into \<open>count_wet\<close> and \<open>count_clear\<close>, and NaN into
  \<open>frequency\<close>.
\<close>

theorem reduce_unobserved_pixel:
  "((\<forall>l\<in>set xx. \<not> some l p) \<longrightarrow>
      at (reduce xx) ''count_wet'' p = Some (I (- 999))
      \<and> at (reduce xx) ''count_clear'' p = Some (I (- 999))
      \<and> ((\<forall>l\<in>set xx. wet l p \<or> dry l p \<longrightarrow> some l p) \<longrightarrow>
            at (reduce xx) ''frequency'' p = Some (F NaN)))
   \<and> (fuser (map (native_transform bd dil) ws) = Some l \<longrightarrow> (wet l p \<or> dry l p \<longrightarrow> some l p))
   \<and> (clear_nodata yy = Some nd \<and> (\<forall>s\<in>set (slices yy). clear_count s p = nd) \<longrightarrow>
        (\<exists>ds. reduce_fh yy = Inr ds
           \<and> at ds ''count_wet'' p = Some (I nd)
           \<and> at ds ''count_clear'' p = Some (I nd)
           \<and> at ds ''frequency'' p = Some (F NaN)))"
proof (intro conjI impI)
  assume h: "\<forall>l\<in>set xx. \<not> some l p"
  then have "count_some xx p = 0" by (simp add: count_some_def sum_bool_zero)
  then show "at (reduce xx) ''count_wet'' p = Some (I (- 999))"
    and "at (reduce xx) ''count_clear'' p = Some (I (- 999))"
    by (simp_all add: at_reduce)
  assume c: "\<forall>l\<in>set xx. wet l p \<or> dry l p \<longrightarrow> some l p"
  with h have "\<forall>l\<in>set xx. \<not> wet l p" "\<forall>l\<in>set xx. \<not> dry l p" by auto
  then have "count_clear xx p = 0"
    by (simp add: count_clear_def count_wet_def count_dry_def sum_bool_zero)
  then show "at (reduce xx) ''frequency'' p = Some (F NaN)"
    by (simp add: at_reduce safe_div_def)
next
  assume "fuser (map (native_transform bd dil) ws) = Some l" and "wet l p \<or> dry l p"
  then show "some l p" using fuser_native_observed by blast
next
  assume h: "clear_nodata yy = Some nd \<and> (\<forall>s\<in>set (slices yy). clear_count s p = nd)"
  then have m: "missing nd (slices yy) p" by (simp add: missing_def list_all_iff)
  from h have z: "sum_valid nd (map clear_count (slices yy)) p = 0"
    by (simp add: sum_valid_zero)
  from h reduce_fh_bands [of yy nd p] m z
  show "\<exists>ds. reduce_fh yy = Inr ds
           \<and> at ds ''count_wet'' p = Some (I nd)
           \<and> at ds ''count_clear'' p = Some (I nd)
           \<and> at ds ''frequency'' p = Some (F NaN)"
    by auto
qed

text \<open>
  The amended claim C1 at an observation without data and at a fused observation of
  water, as \<open>native_transform\<close> gives them, and at a summary that was never observed.
\<close>

theorem reduce_unobserved_pixel_witness:
  "\<not> some nodata_obs (0, 0) \<and> \<not> wet nodata_obs (0, 0) \<and> \<not> dry nodata_obs (0, 0)
   \<and> at (reduce [nodata_obs]) ''count_wet'' (0, 0) = Some (I (- 999))
   \<and> at (reduce [nodata_obs]) ''count_clear'' (0, 0) = Some (I (- 999))
   \<and> at (reduce [nodata_obs]) ''frequency'' (0, 0) = Some (F NaN)
   \<and> fuser (map (native_transform no_dilation 0) [uniform 128]) \<noteq> None
   \<and> wet (the (fuser (map (native_transform no_dilation 0) [uniform 128]))) (0, 0)
   \<and> some (the (fuser (map (native_transform no_dilation 0) [uniform 128]))) (0, 0)
   \<and> clear_nodata unobserved_stack = Some (- 999)
   \<and> map (\<lambda>s. clear_count s (0, 0)) (slices unobserved_stack) = [- 999]
   \<and> at_fh (reduce_fh unobserved_stack) ''count_wet'' (0, 0) = Some (I (- 999))
   \<and> at_fh (reduce_fh unobserved_stack) ''count_clear'' (0, 0) = Some (I (- 999))
   \<and> at_fh (reduce_fh unobserved_stack) ''frequency'' (0, 0) = Some (F NaN)"
proof -
  have a: "\<not> some nodata_obs (0, 0) \<and> \<not> wet nodata_obs (0, 0) \<and> \<not> dry nodata_obs (0, 0)"
    by (simp add: nodata_obs_def native_transform_def uniform_def)
  have c: "fuser (map (native_transform no_dilation 0) [uniform 128])
             = Some (the (fuser (map (native_transform no_dilation 0) [uniform 128])))"
    by (simp add: fuser_def)
  have w: "wet (the (fuser (map (native_transform no_dilation 0) [uniform 128]))) (0, 0)"
    by (simp add: fuser_def native_transform_def uniform_def)
  have d: "clear_nodata unobserved_stack = Some (- 999)
             \<and> map (\<lambda>s. clear_count s (0, 0)) (slices unobserved_stack) = [- 999]"
    by (simp add: unobserved_stack_def uniform_def)
  then have d': "\<forall>s\<in>set (slices unobserved_stack). clear_count s (0, 0) = - 999"
    by (simp add: unobserved_stack_def)
  from reduce_unobserved_pixel [where xx = "[nodata_obs]" and p = "(0, 0)" and bd = no_dilation
      and dil = 0 and ws = "[uniform 128]"
      and l = "the (fuser (map (native_transform no_dilation 0) [uniform 128]))"
      and yy = unobserved_stack and nd = "- 999"] a c w d d'
  show ?thesis by (auto simp: at_fh_def)
qed

text \<open>
  Claim C1 as stated fails. A layer that is wet at a pixel where \<open>some\<close> is not set
  gives \<open>StatsWofs.reduce\<close> a frequency of 1/1 at a pixel without any observation. A
  summary whose \<open>nodata\<close> value is \<open>-1\<close> and that was never observed gives
  \<open>StatsWofsFullHistory.reduce\<close> the count \<open>-1\<close>, not \<open>-999\<close>.
\<close>

theorem reduce_unobserved_counterexample:
  "\<not> some stray_wet (0, 0)
   \<and> at (reduce [stray_wet]) ''frequency'' (0, 0) = Some (F (Quot 1 1))
   \<and> clear_nodata other_nodata_stack = Some (- 1)
   \<and> map (\<lambda>s. clear_count s (0, 0)) (slices other_nodata_stack) = [- 1]
   \<and> at_fh (reduce_fh other_nodata_stack) ''count_clear'' (0, 0) = Some (I (- 1))"
proof -
  have "at (reduce [stray_wet]) ''frequency'' (0, 0) = Some (F (Quot 1 1))"
    by (simp add: at_reduce safe_div_def count_wet_def count_dry_def count_clear_def sum_bool_def
        stray_wet_def uniform_def)
  moreover have "at_fh (reduce_fh other_nodata_stack) ''count_clear'' (0, 0) = Some (I (- 1))"
    by (simp add: at_fh_def reduce_fh_def at_def other_nodata_stack_def Let_def missing_def uniform_def)
  ultimately show ?thesis
    by (simp add: stray_wet_def other_nodata_stack_def uniform_def)
qed

text \<open>
  Claim C4, amended. In both plugins \<open>frequency\<close> is NaN where the summed clear count,
  as the plugin computes it in \<open>int16\<close>, is zero, and the quotient of the summed wet
  count by the summed clear count elsewhere. For fewer than \<open>2 ^ 14\<close> layers the sums
  of \<open>StatsWofs\<close> are the numbers of wet layers and of wet or dry layers. The count
  bands of \<open>StatsWofs.reduce\<close> carry the sentinel \<open>-999\<close>; those of
  \<open>StatsWofsFullHistory.reduce\<close> carry the \<open>nodata\<close> value of the input
  \<open>count_clear\<close> band, whatever it is.
\<close>

theorem frequency_is_safe_ratio:
  "at (reduce xx) ''frequency'' p =
      Some (F (if count_clear xx p = 0 then NaN
               else Quot (sint (count_wet xx p)) (sint (count_clear xx p))))
   \<and> (length xx < 2 ^ 14 \<longrightarrow>
        sint (count_wet xx p) = int (length (filter (\<lambda>l. wet l p) xx))
        \<and> sint (count_clear xx p) =
            int (length (filter (\<lambda>l. wet l p) xx)) + int (length (filter (\<lambda>l. dry l p) xx)))
   \<and> nodata_of (reduce xx) ''count_wet'' = Some (- 999)
   \<and> nodata_of (reduce xx) ''count_clear'' = Some (- 999)
   \<and> (clear_nodata yy = Some nd \<longrightarrow>
        (\<exists>ds. reduce_fh yy = Inr ds
           \<and> at ds ''frequency'' p =
               Some (F (if sum_valid nd (map clear_count (slices yy)) p = 0 then NaN
                        else Quot (sint (sum_valid nd (map wet_count (slices yy)) p))
                                  (sint (sum_valid nd (map clear_count (slices yy)) p))))
           \<and> nodata_of ds ''count_wet'' = Some nd
           \<and> nodata_of ds ''count_clear'' = Some nd))"
proof (intro conjI impI)
  show "at (reduce xx) ''frequency'' p =
      Some (F (if count_clear xx p = 0 then NaN
               else Quot (sint (count_wet xx p)) (sint (count_clear xx p))))"
    by (simp add: at_reduce safe_div_def)
  show "nodata_of (reduce xx) ''count_wet'' = Some (- 999)"
    and "nodata_of (reduce xx) ''count_clear'' = Some (- 999)"
    by (simp_all add: nodata_of_reduce)
next
  assume "length xx < 2 ^ 14"
  then show "sint (count_wet xx p) = int (length (filter (\<lambda>l. wet l p) xx))"
    and "sint (count_clear xx p) =
            int (length (filter (\<lambda>l. wet l p) xx)) + int (length (filter (\<lambda>l. dry l p) xx))"
    by (rule sint_count_wet, rule sint_count_clear)
next
  assume "clear_nodata yy = Some nd"
  from reduce_fh_bands [OF this, of p]
  show "\<exists>ds. reduce_fh yy = Inr ds
           \<and> at ds ''frequency'' p =
               Some (F (if sum_valid nd (map clear_count (slices yy)) p = 0 then NaN
                        else Quot (sint (sum_valid nd (map wet_count (slices yy)) p))
                                  (sint (sum_valid nd (map clear_count (slices yy)) p))))
           \<and> nodata_of ds ''count_wet'' = Some nd
           \<and> nodata_of ds ''count_clear'' = Some nd"
    by auto
qed

text \<open>
  The amended claim C4 at two wet days and a dry day, frequency 2/3, and at two yearly
  summaries with counts 2 of 5 and 1 of 3, frequency 3/8.
\<close>

theorem frequency_is_safe_ratio_witness:
  "length [wet_obs, dry_obs, wet_obs] < 2 ^ 14
   \<and> at (reduce [wet_obs, dry_obs, wet_obs]) ''frequency'' (0, 0) = Some (F (Quot 2 3))
   \<and> clear_nodata two_years = Some (- 999)
   \<and> at_fh (reduce_fh two_years) ''frequency'' (0, 0) = Some (F (Quot 3 8))
   \<and> nodata_fh (reduce_fh two_years) ''count_clear'' = Some (- 999)"
proof -
  have a: "length [wet_obs, dry_obs, wet_obs] < 2 ^ 14" by simp
  have b: "clear_nodata two_years = Some (- 999)" by (simp add: two_years_def)
  have c: "count_clear [wet_obs, dry_obs, wet_obs] (0, 0) = 3"
    "count_wet [wet_obs, dry_obs, wet_obs] (0, 0) = 2"
    by (simp_all add: count_clear_def count_wet_def count_dry_def sum_bool_def wet_obs_def
        dry_obs_def uniform_def)
  have d: "sum_valid (- 999) (map clear_count (slices two_years)) (0, 0) = 8"
    "sum_valid (- 999) (map wet_count (slices two_years)) (0, 0) = 3"
    by (simp_all add: sum_valid_def two_years_def uniform_def)
  from frequency_is_safe_ratio [of "[wet_obs, dry_obs, wet_obs]" "(0, 0)" two_years "- 999"] a b c d
  show ?thesis by (auto simp: at_fh_def nodata_fh_def)
qed

text \<open>
  Claim C4 as stated fails in its last part. On summaries whose \<open>nodata\<close> value is
  \<open>-1\<close>, the count bands of \<open>StatsWofsFullHistory.reduce\<close> carry the sentinel \<open>-1\<close>.
\<close>

theorem sentinel_counterexample:
  "clear_nodata other_nodata_stack = Some (- 1)
   \<and> nodata_fh (reduce_fh other_nodata_stack) ''count_wet'' = Some (- 1)
   \<and> nodata_fh (reduce_fh other_nodata_stack) ''count_clear'' = Some (- 1)
   \<and> (- 1 :: int16) \<noteq> - 999"
  by (simp add: nodata_fh_def reduce_fh_def nodata_of_def other_nodata_stack_def Let_def)

text \<open>
  Claim C8. The variables of the dataset that \<open>StatsWofs.reduce\<close> returns are the
  declared measurements, in their order. \<open>StatsWofsFullHistory.reduce\<close> returns a
  dataset whenever the input \<open>count_clear\<close> band has a \<open>nodata\<close> attribute, and the
  variables of what it returns are the same three names, each once.
\<close>

theorem reduce_band_set:
  "map fst (reduce xx) = measurements
   \<and> set (map fst (reduce xx)) = set measurements
   \<and> (reduce_fh yy = Inr ds \<longrightarrow>
        set (map fst ds) = set measurements \<and> distinct (map fst ds) \<and> length ds = 3)
   \<and> (clear_nodata yy = Some nd \<longrightarrow> (\<exists>ds. reduce_fh yy = Inr ds))"
  by (auto simp: reduce_def measurements_def reduce_fh_def Let_def split: option.splits)

text \<open>Claim C8 at two yearly summaries.\<close>

theorem reduce_band_set_witness:
  "reduce_fh two_years = Inr (projr (reduce_fh two_years))
   \<and> clear_nodata two_years = Some (- 999)
   \<and> set (map fst (projr (reduce_fh two_years))) = set measurements
   \<and> map fst (projr (reduce_fh two_years)) = [''count_clear'', ''count_wet'', ''frequency'']"
proof -
  have a: "reduce_fh two_years = Inr (projr (reduce_fh two_years))"
    by (simp add: reduce_fh_def two_years_def Let_def)
  have b: "map fst (projr (reduce_fh two_years)) = [''count_clear'', ''count_wet'', ''frequency'']"
    by (simp add: reduce_fh_def two_years_def Let_def)
  have c: "clear_nodata two_years = Some (- 999)" by (simp add: two_years_def)
  from reduce_band_set [of "[]" two_years "projr (reduce_fh two_years)" "- 999"] a b c
  show ?thesis by blast
qed

section \<open>Properties of run-pq\<close>

lemma run_task_result:
  "snd (run_task env args t) =
     \<lparr>result_task = t, result_uri = uri env t,
      skipped = (\<not> overwrite args \<and> exists env t = Some True)\<rparr>"
  by (simp add: run_task_def dry_run_proc_def process_task_def Let_def split: prod.splits)

lemma run_task_written:
  "Written t' u \<in> set (fst (run_task env args t)) \<Longrightarrow>
     t' = t \<and> u = uri env t \<and> \<not> dryrun args \<and> (overwrite args \<or> exists env t \<noteq> Some True)"
  by (auto simp: run_task_def dry_run_proc_def process_task_def Let_def split: prod.splits if_splits)

lemma run_pq_results:
  "results (run_pq env args) = [] \<or>
   (\<exists>sel. snd (select_tasks env args) = Inr sel
      \<and> results (run_pq env args) = map (\<lambda>k. snd (run_task env args (stream env k))) sel)"
  by (auto simp: run_pq_def Let_def split: prod.splits sum.splits)

lemma run_pq_written:
  assumes "Written t u \<in> set (events (run_pq env args))"
  shows "\<exists>k. Written t u \<in> set (fst (run_task env args (stream env k)))"
  using assms
  by (auto simp: run_pq_def Let_def select_tasks_def split: prod.splits sum.splits if_splits)

text \<open>
  Claim C3. In every run of \<open>run-pq\<close>: a result whose task has an existing output is
  marked skipped when overwrite is off, and no result is marked skipped when overwrite is
  on; an output is written only outside dry-run mode, at the uri of its task, and only
  when overwrite is on or the existence check did not answer true. With overwrite off,
  \<open>dry_run_proc\<close> is called with \<open>check_s3\<close> on and returns
  \<open>TaskResult(task, uri, skipped = (exists is True))\<close>; in dry-run mode it is the
  whole per-task procedure.
\<close>

theorem existing_output_is_skipped:
  "(\<forall>r\<in>set (results (run_pq env args)).
       (\<not> overwrite args \<and> exists env (result_task r) = Some True \<longrightarrow> skipped r)
     \<and> (overwrite args \<longrightarrow> \<not> skipped r))
   \<and> (Written t u \<in> set (events (run_pq env args)) \<longrightarrow>
        \<not> dryrun args \<and> u = uri env t \<and> (overwrite args \<or> exists env t \<noteq> Some True))
   \<and> (\<not> overwrite args \<longrightarrow>
        snd (dry_run_proc env (overwrite args) t (\<not> overwrite args)) =
          \<lparr>result_task = t, result_uri = uri env t, skipped = (exists env t = Some True)\<rparr>)
   \<and> (dryrun args \<longrightarrow> run_task env args t = dry_run_proc env (overwrite args) t (\<not> overwrite args))"
proof (intro conjI ballI impI)
  fix r assume r: "r \<in> set (results (run_pq env args))"
  with run_pq_results [of env args] obtain k where
    "r = snd (run_task env args (stream env k))" by auto
  then have e: "r = \<lparr>result_task = stream env k, result_uri = uri env (stream env k),
      skipped = (\<not> overwrite args \<and> exists env (stream env k) = Some True)\<rparr>"
    by (simp add: run_task_result)
  { assume "\<not> overwrite args \<and> exists env (result_task r) = Some True"
    with e show "skipped r" by simp }
  { assume "overwrite args"
    with e show "\<not> skipped r" by simp }
next
  assume w: "Written t u \<in> set (events (run_pq env args))"
  from run_pq_written [OF w] obtain k where
    "Written t u \<in> set (fst (run_task env args (stream env k)))" by blast
  from run_task_written [OF this]
  show "\<not> dryrun args" and "u = uri env t" and "overwrite args \<or> exists env t \<noteq> Some True"
    by auto
next
  assume "\<not> overwrite args"
  then show "snd (dry_run_proc env (overwrite args) t (\<not> overwrite args)) =
          \<lparr>result_task = t, result_uri = uri env t, skipped = (exists env t = Some True)\<rparr>"
    by (simp add: dry_run_proc_def Let_def)
next
  assume "dryrun args"
  then show "run_task env args t = dry_run_proc env (overwrite args) t (\<not> overwrite args)"
    by (simp add: run_task_def)
qed

lemma demo_dry:
  "results (run_pq demo_env demo_args) =
     [\<lparr>result_task = demo_stream (''2019--P1Y'', 3, - 4), result_uri = ''2019--P1Y'', skipped = True\<rparr>,
      \<lparr>result_task = demo_stream (''2019--P1Y'', 3, - 3), result_uri = ''2019--P1Y'', skipped = False\<rparr>]"
  by (simp add: run_pq_def select_tasks_def demo_env_def demo_args_def run_task_def
      dry_run_proc_def demo_stream_def demo_exists_def Let_def)

lemma demo_real:
  "events (run_pq demo_env (demo_args\<lparr>dryrun := False\<rparr>)) =
     [Sink_created False, Verify_credentials,
      Dask_started \<lparr>threads_per_worker = 4, processes = False, dask_memory_limit = None,
                    mem_safety_margin = Some ''1G''\<rparr>,
      S3_access_configured,
      Exists_checked (demo_stream (''2019--P1Y'', 3, - 4)),
      Exists_checked (demo_stream (''2019--P1Y'', 3, - 3)),
      Computed (demo_stream (''2019--P1Y'', 3, - 3)),
      Written (demo_stream (''2019--P1Y'', 3, - 3)) ''2019--P1Y'']"
  by (simp add: run_pq_def select_tasks_def demo_env_def demo_args_def run_task_def
      process_task_def demo_stream_def demo_exists_def Let_def)

text \<open>
  Claim C3 on the example task file: the dry run with overwrite off skips the first tile,
  the dry run with overwrite on skips nothing, and the real run writes the second tile
  only.
\<close>

theorem existing_output_is_skipped_witness:
  "\<lparr>result_task = demo_stream (''2019--P1Y'', 3, - 4), result_uri = ''2019--P1Y'', skipped = True\<rparr>
      \<in> set (results (run_pq demo_env demo_args))
   \<and> \<not> overwrite demo_args
   \<and> exists demo_env (demo_stream (''2019--P1Y'', 3, - 4)) = Some True
   \<and> overwrite (demo_args\<lparr>overwrite := True\<rparr>)
   \<and> map skipped (results (run_pq demo_env (demo_args\<lparr>overwrite := True\<rparr>))) = [False, False]
   \<and> Written (demo_stream (''2019--P1Y'', 3, - 3)) ''2019--P1Y''
        \<in> set (events (run_pq demo_env (demo_args\<lparr>dryrun := False\<rparr>)))
   \<and> exists demo_env (demo_stream (''2019--P1Y'', 3, - 3)) \<noteq> Some True
   \<and> dryrun demo_args
   \<and> snd (run_task demo_env demo_args (demo_stream (''2019--P1Y'', 3, - 4))) =
        \<lparr>result_task = demo_stream (''2019--P1Y'', 3, - 4), result_uri = ''2019--P1Y'', skipped = True\<rparr>"
proof -
  have a: "\<not> overwrite demo_args" "dryrun demo_args"
    "overwrite (demo_args\<lparr>overwrite := True\<rparr>)" "\<not> overwrite (demo_args\<lparr>dryrun := False\<rparr>)"
    by (simp_all add: demo_args_def)
  have e: "exists demo_env (demo_stream (''2019--P1Y'', 3, - 4)) = Some True"
    "uri demo_env (demo_stream (''2019--P1Y'', 3, - 4)) = ''2019--P1Y''"
    by (simp_all add: demo_env_def demo_exists_def demo_stream_def)
  have w: "Written (demo_stream (''2019--P1Y'', 3, - 3)) ''2019--P1Y''
        \<in> set (events (run_pq demo_env (demo_args\<lparr>dryrun := False\<rparr>)))"
    by (simp add: demo_real)
  have r: "\<lparr>result_task = demo_stream (''2019--P1Y'', 3, - 4), result_uri = ''2019--P1Y'', skipped = True\<rparr>
      \<in> set (results (run_pq demo_env demo_args))"
    by (simp add: demo_dry)
  note t1 = existing_output_is_skipped [of demo_env demo_args
      "demo_stream (''2019--P1Y'', 3, - 4)" "''2019--P1Y''"]
  note t2 = existing_output_is_skipped [of demo_env "demo_args\<lparr>overwrite := True\<rparr>"
      "demo_stream (''2019--P1Y'', 3, - 4)" "''2019--P1Y''"]
  note t3 = existing_output_is_skipped [of demo_env "demo_args\<lparr>dryrun := False\<rparr>"
      "demo_stream (''2019--P1Y'', 3, - 3)" "''2019--P1Y''"]
  have l: "length (results (run_pq demo_env (demo_args\<lparr>overwrite := True\<rparr>))) = 2"
    by (simp add: run_pq_def select_tasks_def demo_env_def demo_args_def Let_def)
  from t2 a(3) have "\<forall>r\<in>set (results (run_pq demo_env (demo_args\<lparr>overwrite := True\<rparr>))). \<not> skipped r"
    by blast
  with l have "map skipped (results (run_pq demo_env (demo_args\<lparr>overwrite := True\<rparr>))) = [False, False]"
    by (cases "results (run_pq demo_env (demo_args\<lparr>overwrite := True\<rparr>))" rule: list.exhaust;
        cases "tl (results (run_pq demo_env (demo_args\<lparr>overwrite := True\<rparr>)))" rule: list.exhaust)
       auto
  moreover from t3 w a(4)
  have "exists demo_env (demo_stream (''2019--P1Y'', 3, - 3)) \<noteq> Some True" by blast
  moreover from t1 a(1,2) e
  have "snd (run_task demo_env demo_args (demo_stream (''2019--P1Y'', 3, - 4))) =
        \<lparr>result_task = demo_stream (''2019--P1Y'', 3, - 4), result_uri = ''2019--P1Y'', skipped = True\<rparr>"
    by simp
  ultimately show ?thesis using a e w r by simp
qed

text \<open>
  Claim C6. When the selectors do not parse, \<open>run-pq\<close> prints the error on standard
  error and exits with code 1; apart from the description of the reader in verbose mode
  nothing else has happened: no sink, no computation. When the selection succeeds, the
  output location starts with \<open>s3:\<close> and the credential check fails, it exits with code
  2 after printing the failure, and no task has been checked, computed or written. The
  two exit codes differ.
\<close>

theorem run_pq_exit_codes:
  "(length (tasks args) \<noteq> 0 \<and> parse_all_tasks env (tasks args) (all_tiles env) = Inl msg \<longrightarrow>
      ended (run_pq env args) = Exit 1
      \<and> events (run_pq env args) =
          (if verbose args then [Print Stdout Reader_repr] else []) @ [Print Stderr (Text msg)]
      \<and> results (run_pq env args) = [])
   \<and> (snd (select_tasks env args) = Inr sel
        \<and> prefix ''s3:'' (product_location env) \<and> \<not> verify_s3_credentials env \<longrightarrow>
      ended (run_pq env args) = Exit 2
      \<and> results (run_pq env args) = []
      \<and> (\<forall>e\<in>set (events (run_pq env args)). \<not> task_event e)
      \<and> last (events (run_pq env args)) = Print Stdout (Text ''Failed to load S3 credentials''))
   \<and> exit_code (Exit 1) \<noteq> exit_code (Exit 2)"
proof (intro conjI impI)
  assume h: "length (tasks args) \<noteq> 0 \<and> parse_all_tasks env (tasks args) (all_tiles env) = Inl msg"
  then have s: "select_tasks env args = ([Print Stderr (Text msg)], Inl msg)"
    by (simp add: select_tasks_def)
  show "ended (run_pq env args) = Exit 1"
    and "events (run_pq env args) =
          (if verbose args then [Print Stdout Reader_repr] else []) @ [Print Stderr (Text msg)]"
    and "results (run_pq env args) = []"
    by (simp_all add: run_pq_def s)
next
  assume h: "snd (select_tasks env args) = Inr sel
        \<and> prefix ''s3:'' (product_location env) \<and> \<not> verify_s3_credentials env"
  then obtain evs where s: "select_tasks env args = (evs, Inr sel)"
    by (cases "select_tasks env args") auto
  have evs: "\<forall>e\<in>set evs. \<not> task_event e"
    using s by (auto simp: select_tasks_def task_event_def split: if_splits sum.splits)
  from h have c: "prefix ''s3:'' (product_location env)" "\<not> verify_s3_credentials env" by auto
  show "ended (run_pq env args) = Exit 2" and "results (run_pq env args) = []"
    using c by (simp_all add: run_pq_def s Let_def)
  show "\<forall>e\<in>set (events (run_pq env args)). \<not> task_event e"
    using c evs by (auto simp: run_pq_def s Let_def task_event_def)
  show "last (events (run_pq env args)) = Print Stdout (Text ''Failed to load S3 credentials'')"
    using c by (simp add: run_pq_def s Let_def)
next
  show "exit_code (Exit 1) \<noteq> exit_code (Exit 2)" by simp
qed

text \<open>
  Claim C6 on the example task file: a selector the parser rejects, and a failing
  credential check.
\<close>

theorem run_pq_exit_codes_witness:
  "length (tasks (demo_args\<lparr>tasks := [''bogus'']\<rparr>)) \<noteq> 0
   \<and> parse_all_tasks demo_env (tasks (demo_args\<lparr>tasks := [''bogus'']\<rparr>)) (all_tiles demo_env)
        = Inl ''Bad task selector''
   \<and> ended (run_pq demo_env (demo_args\<lparr>tasks := [''bogus'']\<rparr>)) = Exit 1
   \<and> events (run_pq demo_env (demo_args\<lparr>tasks := [''bogus'']\<rparr>))
        = [Print Stderr (Text ''Bad task selector'')]
   \<and> snd (select_tasks (demo_env\<lparr>verify_s3_credentials := False\<rparr>) demo_args)
        = Inr (all_tiles demo_env)
   \<and> prefix ''s3:'' (product_location (demo_env\<lparr>verify_s3_credentials := False\<rparr>))
   \<and> \<not> verify_s3_credentials (demo_env\<lparr>verify_s3_credentials := False\<rparr>)
   \<and> ended (run_pq (demo_env\<lparr>verify_s3_credentials := False\<rparr>) demo_args) = Exit 2
   \<and> results (run_pq (demo_env\<lparr>verify_s3_credentials := False\<rparr>) demo_args) = []
   \<and> filter task_event (events (run_pq (demo_env\<lparr>verify_s3_credentials := False\<rparr>) demo_args)) = []"
proof -
  have a: "length (tasks (demo_args\<lparr>tasks := [''bogus'']\<rparr>)) \<noteq> 0
     \<and> parse_all_tasks demo_env (tasks (demo_args\<lparr>tasks := [''bogus'']\<rparr>)) (all_tiles demo_env)
        = Inl ''Bad task selector''"
    by (simp add: demo_args_def demo_env_def demo_parse_def)
  have v: "\<not> verbose (demo_args\<lparr>tasks := [''bogus'']\<rparr>)" by (simp add: demo_args_def)
  have b: "snd (select_tasks (demo_env\<lparr>verify_s3_credentials := False\<rparr>) demo_args)
        = Inr (all_tiles demo_env)
     \<and> prefix ''s3:'' (product_location (demo_env\<lparr>verify_s3_credentials := False\<rparr>))
     \<and> \<not> verify_s3_credentials (demo_env\<lparr>verify_s3_credentials := False\<rparr>)"
    by (simp add: select_tasks_def demo_args_def demo_env_def)
  from run_pq_exit_codes [of "demo_args\<lparr>tasks := [''bogus'']\<rparr>" demo_env "''Bad task selector''"
      "[]"] a v
  have 1: "ended (run_pq demo_env (demo_args\<lparr>tasks := [''bogus'']\<rparr>)) = Exit 1
     \<and> events (run_pq demo_env (demo_args\<lparr>tasks := [''bogus'']\<rparr>))
        = [Print Stderr (Text ''Bad task selector'')]"
    by simp
  from run_pq_exit_codes [of demo_args "demo_env\<lparr>verify_s3_credentials := False\<rparr>" "[]"
      "all_tiles demo_env"] b
  have 2: "ended (run_pq (demo_env\<lparr>verify_s3_credentials := False\<rparr>) demo_args) = Exit 2
     \<and> results (run_pq (demo_env\<lparr>verify_s3_credentials := False\<rparr>) demo_args) = []
     \<and> filter task_event (events (run_pq (demo_env\<lparr>verify_s3_credentials := False\<rparr>) demo_args)) = []"
    by (simp add: filter_empty_conv)
  from a b 1 2 show ?thesis by blast
qed

text \<open>
  Claim C7. With no selector, \<open>run-pq\<close> selects the whole tile list of the task file.
  Unless the credential check fails, the run returns, and the tasks of its results are
  the tasks of the tiles \<open>0, ..., N - 1\<close> of the file, in that order.
\<close>

theorem empty_selector_selects_all:
  "length (tasks args) = 0 \<longrightarrow>
     snd (select_tasks env args) = Inr (all_tiles env)
     \<and> (\<not> (prefix ''s3:'' (product_location env) \<and> \<not> verify_s3_credentials env) \<longrightarrow>
          ended (run_pq env args) = Returned
          \<and> map result_task (results (run_pq env args)) = map (stream env) (all_tiles env)
          \<and> map result_task (results (run_pq env args)) =
               map (\<lambda>i. stream env (all_tiles env ! i)) [0..<length (all_tiles env)])"
proof (intro impI conjI)
  assume h: "length (tasks args) = 0"
  then show s: "snd (select_tasks env args) = Inr (all_tiles env)"
    by (simp add: select_tasks_def)
  then obtain evs where e: "select_tasks env args = (evs, Inr (all_tiles env))"
    by (cases "select_tasks env args") auto
  assume c: "\<not> (prefix ''s3:'' (product_location env) \<and> \<not> verify_s3_credentials env)"
  then show "ended (run_pq env args) = Returned"
    by (auto simp: run_pq_def e Let_def)
  from c have "results (run_pq env args) =
      map (\<lambda>k. snd (run_task env args (stream env k))) (all_tiles env)"
    by (auto simp: run_pq_def e Let_def)
  then show m: "map result_task (results (run_pq env args)) = map (stream env) (all_tiles env)"
    by (simp add: run_task_result comp_def)
  have "map (\<lambda>i. stream env (all_tiles env ! i)) [0..<length (all_tiles env)]
      = map (stream env) (map (\<lambda>i. all_tiles env ! i) [0..<length (all_tiles env)])"
    by (simp add: comp_def)
  also have "\<dots> = map (stream env) (all_tiles env)" by (simp add: map_nth)
  finally show "map result_task (results (run_pq env args)) =
               map (\<lambda>i. stream env (all_tiles env ! i)) [0..<length (all_tiles env)]"
    using m by simp
qed

text \<open>Claim C7 on the example task file: both tiles are processed, in order.\<close>

theorem empty_selector_selects_all_witness:
  "length (tasks demo_args) = 0
   \<and> verify_s3_credentials demo_env
   \<and> ended (run_pq demo_env demo_args) = Returned
   \<and> map result_task (results (run_pq demo_env demo_args)) =
        [demo_stream (''2019--P1Y'', 3, - 4), demo_stream (''2019--P1Y'', 3, - 3)]"
proof -
  have a: "length (tasks demo_args) = 0" by (simp add: demo_args_def)
  have b: "verify_s3_credentials demo_env"
    by (simp add: demo_env_def)
  have c: "map (stream demo_env) (all_tiles demo_env) =
        [demo_stream (''2019--P1Y'', 3, - 4), demo_stream (''2019--P1Y'', 3, - 3)]"
    by (simp add: demo_env_def)
  from empty_selector_selects_all [of demo_args demo_env] a b c
  show ?thesis by simp
qed

section \<open>Properties of save-tasks\<close>

text \<open>
  Claim C5. When both \<open>--year\<close> and \<open>--temporal-range\<close> are given, \<open>save-tasks\<close>
  ends with a non-zero exit code and has touched neither the task catalog nor the
  datacube: either \<open>json.loads\<close> raised on the dataset filter, or the command printed
  that only one of the two may be supplied and exited with code 1. Without a dataset
  filter it is the latter.
\<close>

theorem year_and_temporal_range_rejected:
  "temporal_range args \<noteq> None \<and> year args \<noteq> None \<longrightarrow>
     exit_code (snd (save_tasks co args)) \<noteq> 0
     \<and> (\<forall>e\<in>set (fst (save_tasks co args)). \<not> catalog_event e)
     \<and> (save_tasks co args = ([], Raised ''JSONDecodeError'')
          \<or> save_tasks co args =
               ([Say Stderr ''Can only supply one of --year or --temporal_range''], Exit 1))
     \<and> (dataset_filter args = None \<longrightarrow>
          save_tasks co args =
            ([Say Stderr ''Can only supply one of --year or --temporal_range''], Exit 1))"
  by (auto simp: save_tasks_def catalog_event_def split: option.splits)

text \<open>Claim C5 at an invocation with \<open>--year 2020\<close> and \<open>--temporal-range 2020--P1Y\<close>.\<close>

theorem year_and_temporal_range_rejected_witness:
  "temporal_range (demo_save_args\<lparr>year := Some 2020, temporal_range := Some ''2020--P1Y''\<rparr>) \<noteq> None
   \<and> year (demo_save_args\<lparr>year := Some 2020, temporal_range := Some ''2020--P1Y''\<rparr>) \<noteq> None
   \<and> dataset_filter (demo_save_args\<lparr>year := Some 2020, temporal_range := Some ''2020--P1Y''\<rparr>) = None
   \<and> save_tasks demo_co (demo_save_args\<lparr>year := Some 2020, temporal_range := Some ''2020--P1Y''\<rparr>) =
        ([Say Stderr ''Can only supply one of --year or --temporal_range''], Exit 1)"
proof -
  have a: "temporal_range (demo_save_args\<lparr>year := Some 2020, temporal_range := Some ''2020--P1Y''\<rparr>) \<noteq> None
   \<and> year (demo_save_args\<lparr>year := Some 2020, temporal_range := Some ''2020--P1Y''\<rparr>) \<noteq> None"
    by simp
  have b: "dataset_filter (demo_save_args\<lparr>year := Some 2020, temporal_range := Some ''2020--P1Y''\<rparr>) = None"
    by (simp add: demo_save_args_def)
  from year_and_temporal_range_rejected
    [of "demo_save_args\<lparr>year := Some 2020, temporal_range := Some ''2020--P1Y''\<rparr>" demo_co] a b
  show ?thesis by blast
qed

text \<open>
  Claim C10. When both \<open>--gqa\<close> and \<open>--usgs-collection-category\<close> are given, the
  predicate is the collection category predicate, and the whole run of \<open>save-tasks\<close>
  is the run without \<open>--gqa\<close>: the combination is not rejected, and every call of
  \<open>tasks.save\<close> receives the collection category predicate.
\<close>

theorem gqa_discarded_with_collection_category:
  "gqa args = Some g \<and> usgs_collection_category args = Some c \<longrightarrow>
     select_predicate args = Some (collection_category_predicate c)
     \<and> save_tasks co args = save_tasks co (args\<lparr>gqa := None\<rparr>)
     \<and> (\<forall>call. Save_called call \<in> set (fst (save_tasks co args)) \<longrightarrow>
           call_predicate call = Some (collection_category_predicate c))"
proof (intro impI conjI allI)
  assume h: "gqa args = Some g \<and> usgs_collection_category args = Some c"
  then show p: "select_predicate args = Some (collection_category_predicate c)"
    by (simp add: select_predicate_def)
  from h have q: "select_predicate (args\<lparr>gqa := None\<rparr>) = select_predicate args"
    by (simp add: select_predicate_def)
  have b: "build_and_save co (args\<lparr>gqa := None\<rparr>) flt tr = build_and_save co args flt tr"
    for flt tr
    by (simp add: build_and_save_def q Let_def split: option.splits sum.splits)
  show "save_tasks co args = save_tasks co (args\<lparr>gqa := None\<rparr>)"
    by (simp add: save_tasks_def b Let_def split: option.splits sum.splits)
  fix call assume "Save_called call \<in> set (fst (save_tasks co args))"
  then show "call_predicate call = Some (collection_category_predicate c)"
    by (auto simp: save_tasks_def build_and_save_def p Let_def
        split: option.splits sum.splits if_splits)
qed

lemma demo_save_events:
  "fst (save_tasks demo_co demo_save_args) =
     [SaveTasks_created ''ls8_sr_all.db'' (Some ''au-30'') None False 6,
      Datacube_created None,
      Save_called \<lparr>call_products = ''ls8_sr'', call_dataset_filter = [],
                   call_temporal_range = None, call_tiles = None,
                   call_predicate = Some (collection_category_predicate ''T1''),
                   call_debug = False\<rparr>]"
  by (simp add: save_tasks_def build_and_save_def demo_save_args_def demo_co_def
      demo_SaveTasks_def demo_save_def default_output_def select_predicate_def Let_def)

text \<open>
  Claim C10 at an invocation with \<open>--gqa 1\<close> and \<open>--usgs-collection-category T1\<close>: the
  run reaches \<open>tasks.save\<close> with the collection category predicate and returns, and a
  dataset that passes the gqa test is dropped by the predicate in use.
\<close>

theorem gqa_discarded_with_collection_category_witness:
  "gqa demo_save_args = Some 1
   \<and> usgs_collection_category demo_save_args = Some ''T1''
   \<and> select_predicate demo_save_args = Some (collection_category_predicate ''T1'')
   \<and> snd (save_tasks demo_co demo_save_args) = Returned
   \<and> Save_called \<lparr>call_products = ''ls8_sr'', call_dataset_filter = [],
                   call_temporal_range = None, call_tiles = None,
                   call_predicate = Some (collection_category_predicate ''T1''),
                   call_debug = False\<rparr> \<in> set (fst (save_tasks demo_co demo_save_args))
   \<and> save_tasks demo_co demo_save_args = save_tasks demo_co (demo_save_args\<lparr>gqa := None\<rparr>)
   \<and> gqa_predicate 1 demo_ds
   \<and> \<not> collection_category_predicate ''T1'' demo_ds"
proof -
  have a: "gqa demo_save_args = Some 1 \<and> usgs_collection_category demo_save_args = Some ''T1''"
    by (simp add: demo_save_args_def)
  have b: "snd (save_tasks demo_co demo_save_args) = Returned"
    by (simp add: save_tasks_def build_and_save_def demo_save_args_def demo_co_def
        demo_SaveTasks_def demo_save_def Let_def)
  have c: "gqa_predicate 1 demo_ds \<and> \<not> collection_category_predicate ''T1'' demo_ds"
    by (simp add: gqa_predicate_def collection_category_predicate_def demo_ds_def)
  have d: "Save_called \<lparr>call_products = ''ls8_sr'', call_dataset_filter = [],
                   call_temporal_range = None, call_tiles = None,
                   call_predicate = Some (collection_category_predicate ''T1''),
                   call_debug = False\<rparr> \<in> set (fst (save_tasks demo_co demo_save_args))"
    by (simp add: demo_save_events)
  from gqa_discarded_with_collection_category [of demo_save_args 1 "''T1''" demo_co] a b c d
  show ?thesis by blast
qed

end
